theory Spec2Isabelle
  imports Main "HOL-Library.Word"
begin

section \<open>The message collector of \<^verbatim>\<open>src/service/message.ts\<close>\<close>

subsection \<open>Strings\<close>

text \<open>
  A JavaScript string is a sequence of UTF-16 code units and \<^verbatim>\<open>length\<close> counts
  them. \<open>js\<close> turns an ASCII literal of the source into its code units.
\<close>

type_synonym jschar = "16 word"
type_synonym jsstring = "jschar list"

definition js :: "string \<Rightarrow> jsstring" where
  "js s = map of_char s"

text \<open>
  \<^verbatim>\<open>String.prototype.trimEnd\<close> removes the trailing code units that are WhiteSpace or
  LineTerminator in ECMAScript: TAB, LF, VT, FF, CR, SP, NBSP, U+1680, U+2000 to U+200A,
  U+2028, U+2029, U+202F, U+205F, U+3000 and U+FEFF.
\<close>

definition isWhiteSpace :: "jschar \<Rightarrow> bool" where
  "isWhiteSpace c =
     (c \<in> set [0x0009, 0x000A, 0x000B, 0x000C, 0x000D, 0x0020, 0x00A0, 0x1680,
                0x2028, 0x2029, 0x202F, 0x205F, 0x3000, 0xFEFF]
      \<or> (0x2000 \<le> c \<and> c \<le> 0x200A))"

definition trimEnd :: "jsstring \<Rightarrow> jsstring" where
  "trimEnd s = rev (dropWhile isWhiteSpace (rev s))"

subsection \<open>Sessions, elements and messages\<close>

text \<open>
  An element \<^verbatim>\<open>h\<close> is told apart by its \<^verbatim>\<open>type\<close>: \<^verbatim>\<open>'text'\<close> carries
  \<^verbatim>\<open>attrs.content\<close> (read \<^verbatim>\<open>as string\<close> by the source), \<^verbatim>\<open>'at'\<close> carries
  \<^verbatim>\<open>attrs.id\<close> and \<^verbatim>\<open>attrs.name\<close>, either of which may be missing
  (\<open>None\<close> is \<^verbatim>\<open>undefined\<close>); every other type is kept by its name only.
\<close>

datatype element =
  Text (text_content: jsstring)
| At (at_id: "jsstring option") (at_name: "jsstring option")
| Other (other_type: jsstring)

record bot =
  bot_username :: "jsstring option"
  bot_userId :: "jsstring option"
  bot_selfId :: "jsstring option"

record author =
  author_username :: "jsstring option"
  author_userId :: "jsstring option"

record quoteMessage =
  quote_content :: jsstring
  quote_elements :: "element list"
  quote_author :: author

record session =
  isDirect :: bool
  guildId :: jsstring
  content :: jsstring
  elements :: "element list option"
  author :: author
  quote :: "quoteMessage option"
  bot :: bot

text \<open>
  \<^verbatim>\<open>Message\<close> (declared in \<^verbatim>\<open>../types\<close>): the fields the collector fills. The
  quoted message has the same shape without a quote of its own. \<open>None\<close> in
  \<open>msg_name\<close> or \<open>msg_id\<close> is \<^verbatim>\<open>undefined\<close>.
\<close>

record quoted =
  quoted_content :: jsstring
  quoted_name :: "jsstring option"
  quoted_id :: "jsstring option"

record message =
  msg_content :: jsstring
  msg_name :: "jsstring option"
  msg_id :: "jsstring option"
  msg_quote :: "quoted option"

subsection \<open>\<^verbatim>\<open>mapElementToString\<close>\<close>

text \<open>
  A template literal prints a missing value as \<^verbatim>\<open>undefined\<close>.
\<close>

definition templateString :: "jsstring option \<Rightarrow> jsstring" where
  "templateString v = (case v of None \<Rightarrow> js ''undefined'' | Some x \<Rightarrow> x)"

text \<open>
  The \<^verbatim>\<open>'at'\<close> branch, lines 237 to 245: \<^verbatim>\<open>name\<close> starts as the element's own
  name; when the mentioned id is the bot's \<^verbatim>\<open>selfId\<close> it becomes
  \<^verbatim>\<open>name ?? session.bot.username ?? '0'\<close>; when still missing it becomes
  \<^verbatim>\<open>element.attrs.id ?? '0'\<close>.
\<close>

definition atName :: "session \<Rightarrow> jsstring option \<Rightarrow> jsstring option \<Rightarrow> jsstring" where
  "atName s i n =
     (let name1 =
        (if i = bot_selfId (bot s)
         then (case n of
                 Some x \<Rightarrow> Some x
               | None \<Rightarrow> (case bot_username (bot s) of Some u \<Rightarrow> Some u | None \<Rightarrow> Some (js ''0'')))
         else n)
      in case name1 of
           None \<Rightarrow> (case i of Some x \<Rightarrow> x | None \<Rightarrow> js ''0'')
         | Some x \<Rightarrow> x)"

definition atString :: "session \<Rightarrow> jsstring option \<Rightarrow> jsstring option \<Rightarrow> jsstring" where
  "atString s i n = js ''('' @ atName s i n @ js ''-'' @ templateString i @ js ''-<at>)''"

text \<open>
  The \<^verbatim>\<open>for\<close> loop of lines 227 to 247 with \<^verbatim>\<open>filteredBuffer\<close> as its accumulator.
\<close>

fun pushElements :: "session \<Rightarrow> element list \<Rightarrow> jsstring list \<Rightarrow> jsstring list" where
  "pushElements s [] filteredBuffer = filteredBuffer"
| "pushElements s (Text c # es) filteredBuffer =
     (if length (trimEnd c) < 1 then pushElements s es filteredBuffer
      else pushElements s es (filteredBuffer @ [c]))"
| "pushElements s (At i n # es) filteredBuffer =
     pushElements s es (filteredBuffer @ [atString s i n])"
| "pushElements s (Other t # es) filteredBuffer = pushElements s es filteredBuffer"

definition mapElementToString :: "session \<Rightarrow> jsstring \<Rightarrow> element list \<Rightarrow> jsstring" where
  "mapElementToString s c es =
     (if length (trimEnd c) < 1 then [] else concat (pushElements s es []))"

subsection \<open>The collector's state\<close>

text \<open>
  A filter is a predicate on the session and the new message. A listener of the
  \<^verbatim>\<open>'collect'\<close> event is a function that returns a promise; what the collector can
  see of one call is whether it returned a promise that is fulfilled later, returned a
  promise that is rejected later, or threw before returning.
\<close>

type_synonym filter = "session \<Rightarrow> message \<Rightarrow> bool"

datatype listenerResult = Fulfils | Rejects | Throws

type_synonym listener = "session \<Rightarrow> message list \<Rightarrow> listenerResult"

record groupLock =
  gl_lock :: bool
  gl_mute :: int

text \<open>
  \<^verbatim>\<open>GroupTemp\<close> is declared in \<^verbatim>\<open>../types\<close>; the collector only builds the default
  \<^verbatim>\<open>{ completionMessages: [] }\<close>.
\<close>

record 'm groupTemp =
  completionMessages :: "'m list"

record 'm collector =
  messages :: "jsstring \<rightharpoonup> message list"
  listeners :: "listener list"
  filters :: "filter list"
  groupLocks :: "jsstring \<rightharpoonup> groupLock"
  groupTemp :: "jsstring \<rightharpoonup> 'm groupTemp"
  maxMessages :: int

definition newCollector :: "int \<Rightarrow> 'm collector" where
  "newCollector maxMessageSize =
     \<lparr>messages = Map.empty, listeners = [], filters = [], groupLocks = Map.empty,
      groupTemp = Map.empty, maxMessages = maxMessageSize\<rparr>"

definition addFilter :: "'m collector \<Rightarrow> filter \<Rightarrow> 'm collector" where
  "addFilter c f = c\<lparr>filters := filters c @ [f]\<rparr>"

definition collect :: "'m collector \<Rightarrow> listener \<Rightarrow> 'm collector" where
  "collect c func = c\<lparr>listeners := listeners c @ [func]\<rparr>"

definition getMessages :: "'m collector \<Rightarrow> jsstring \<Rightarrow> message list option" where
  "getMessages c groupId = messages c groupId"

text \<open>\<^verbatim>\<open>clear\<close>: the empty string is falsy, so it clears every group too.\<close>

definition clear :: "'m collector \<Rightarrow> jsstring option \<Rightarrow> 'm collector" where
  "clear c groupId =
     (case groupId of
        Some g \<Rightarrow> (if g \<noteq> [] then c\<lparr>messages := (messages c)(g \<mapsto> [])\<rparr>
                   else c\<lparr>messages := Map.empty\<rparr>)
      | None \<Rightarrow> c\<lparr>messages := Map.empty\<rparr>)"

text \<open>
  \<^verbatim>\<open>_getGroupLocks\<close> creates the group's entry on first use and returns it. The
  caller writes through the returned object; \<open>setGroupLock\<close> is that write.
\<close>

definition getGroupLocks :: "'m collector \<Rightarrow> jsstring \<Rightarrow> groupLock \<times> 'm collector" where
  "getGroupLocks c groupId =
     (case groupLocks c groupId of
        None \<Rightarrow> (\<lparr>gl_lock = False, gl_mute = 0\<rparr>,
                  c\<lparr>groupLocks := (groupLocks c)(groupId \<mapsto> \<lparr>gl_lock = False, gl_mute = 0\<rparr>)\<rparr>)
      | Some l \<Rightarrow> (l, c))"

definition setGroupLock :: "'m collector \<Rightarrow> jsstring \<Rightarrow> groupLock \<Rightarrow> 'm collector" where
  "setGroupLock c groupId l = c\<lparr>groupLocks := (groupLocks c)(groupId \<mapsto> l)\<rparr>"

subsection \<open>Mute window\<close>

text \<open>
  \<^verbatim>\<open>mute\<close> reads the clock twice: \<open>t1\<close> is the reading of the comparison in line 26,
  \<open>t2\<close> the reading of the assignment in line 27. \<^verbatim>\<open>isMute\<close> reads it once.
\<close>

definition mute :: "'m collector \<Rightarrow> session \<Rightarrow> int \<Rightarrow> int \<Rightarrow> int \<Rightarrow> 'm collector" where
  "mute c s time t1 t2 =
     (case getGroupLocks c (guildId s) of
        (l, c1) \<Rightarrow>
          setGroupLock c1 (guildId s)
            (l\<lparr>gl_mute := (if gl_mute l < t1 then t2 + time else gl_mute l + time)\<rparr>))"

definition isMute :: "'m collector \<Rightarrow> session \<Rightarrow> int \<Rightarrow> bool \<times> 'm collector" where
  "isMute c s now =
     (case getGroupLocks c (guildId s) of (l, c1) \<Rightarrow> (gl_mute l > now, c1))"

subsection \<open>The polling mutex\<close>

text \<open>
  An asynchronous method is modelled run on its own, with no other task of the event
  loop between its call and its end: the promise it returns is \<open>Resolved\<close> with a
  value, \<open>Rejected\<close> (an exception left the body), or \<open>Pending\<close> (it waits for a
  change of state that only another task can make).

  \<^verbatim>\<open>_lock\<close> resolves at the first timer tick that finds the flag clear, and sets it;
  \<^verbatim>\<open>_unlock\<close> resolves at the first tick that finds the flag set, and clears it.
\<close>

datatype 'a promise = Resolved 'a | Rejected | Pending

definition lock :: "'m collector \<Rightarrow> session \<Rightarrow> unit promise \<times> 'm collector" where
  "lock c s =
     (case getGroupLocks c (guildId s) of
        (groupLock, c1) \<Rightarrow>
          if \<not> gl_lock groupLock
          then (Resolved (), setGroupLock c1 (guildId s) (groupLock\<lparr>gl_lock := True\<rparr>))
          else (Pending, c1))"

definition unlock :: "'m collector \<Rightarrow> session \<Rightarrow> unit promise \<times> 'm collector" where
  "unlock c s =
     (case getGroupLocks c (guildId s) of
        (groupLock, c1) \<Rightarrow>
          if gl_lock groupLock
          then (Resolved (), setGroupLock c1 (guildId s) (groupLock\<lparr>gl_lock := False\<rparr>))
          else (Pending, c1))"

subsection \<open>Temp data\<close>

definition updateTemp :: "'m collector \<Rightarrow> session \<Rightarrow> 'm groupTemp \<Rightarrow> unit promise \<times> 'm collector" where
  "updateTemp c s temp =
     (case lock c s of
        (Resolved u, c1) \<Rightarrow>
          unlock (c1\<lparr>groupTemp := (groupTemp c1)(guildId s \<mapsto> temp)\<rparr>) s
      | (Rejected, c1) \<Rightarrow> (Rejected, c1)
      | (Pending, c1) \<Rightarrow> (Pending, c1))"

definition getTemp :: "'m collector \<Rightarrow> session \<Rightarrow> 'm groupTemp promise \<times> 'm collector" where
  "getTemp c s =
     (case lock c s of
        (Resolved u, c1) \<Rightarrow>
          (let temp = (case groupTemp c1 (guildId s) of
                         Some t \<Rightarrow> t
                       | None \<Rightarrow> \<lparr>completionMessages = []\<rparr>)
           in case unlock (c1\<lparr>groupTemp := (groupTemp c1)(guildId s \<mapsto> temp)\<rparr>) s of
                (Resolved u', c2) \<Rightarrow> (Resolved temp, c2)
              | (Rejected, c2) \<Rightarrow> (Rejected, c2)
              | (Pending, c2) \<Rightarrow> (Pending, c2))
      | (Rejected, c1) \<Rightarrow> (Rejected, c1)
      | (Pending, c1) \<Rightarrow> (Pending, c1))"

subsection \<open>Building and buffering a message\<close>

text \<open>The object literal of lines 182 to 197: the author's fields are copied as they are.\<close>

definition incomingMessage :: "session \<Rightarrow> jsstring \<Rightarrow> message" where
  "incomingMessage s cont =
     \<lparr>msg_content = cont,
      msg_name = author_username (author s),
      msg_id = author_userId (author s),
      msg_quote =
        (case quote s of
           Some q \<Rightarrow>
             Some \<lparr>quoted_content = mapElementToString s (quote_content q) (quote_elements q),
                   quoted_name = author_username (quote_author q),
                   quoted_id = author_userId (quote_author q)\<rparr>
         | None \<Rightarrow> None)\<rparr>"

text \<open>
  The object literal of lines 139 to 143, with
  \<^verbatim>\<open>session.bot.userId ?? session.bot.selfId ?? '0'\<close> as the id.
\<close>

definition botMessage :: "session \<Rightarrow> jsstring \<Rightarrow> message" where
  "botMessage s cont =
     \<lparr>msg_content = cont,
      msg_name = bot_username (bot s),
      msg_id =
        (case bot_userId (bot s) of
           Some u \<Rightarrow> Some u
         | None \<Rightarrow> (case bot_selfId (bot s) of Some i \<Rightarrow> Some i | None \<Rightarrow> Some (js ''0''))),
      msg_quote = None\<rparr>"

text \<open>
  The \<^verbatim>\<open>while\<close> loop of lines 148 to 150 and 202 to 204. \<^verbatim>\<open>shift\<close> on an empty
  array leaves it empty, so the loop does not end when \<^verbatim>\<open>maxMessages\<close> is negative:
  \<open>None\<close> is the call that never returns.
\<close>

partial_function (option) shiftLoop :: "message list \<Rightarrow> int \<Rightarrow> message list option" where
  "shiftLoop groupArray maxMessageSize =
     (if int (length groupArray) > maxMessageSize
      then shiftLoop (tl groupArray) maxMessageSize
      else Some groupArray)"

definition pushAndShift :: "message list \<Rightarrow> message \<Rightarrow> int \<Rightarrow> message list option" where
  "pushAndShift groupArray m maxMessageSize =
     (if int (length (groupArray @ [m])) > maxMessageSize
      then shiftLoop (groupArray @ [m]) maxMessageSize
      else Some (groupArray @ [m]))"

text \<open>
  \<^verbatim>\<open>EventEmitter.emit\<close> calls the listeners one after the other in the order of their
  registration and does not wait for the promises they return; an exception thrown by a
  listener leaves \<^verbatim>\<open>emit\<close> at once, before the listeners after it are called. The
  result lists what each listener that was called did.
\<close>

fun emit :: "listener list \<Rightarrow> session \<Rightarrow> message list \<Rightarrow> listenerResult list" where
  "emit [] s groupArray = []"
| "emit (func # funcs) s groupArray =
     (case func s groupArray of
        Throws \<Rightarrow> [Throws]
      | r \<Rightarrow> r # emit funcs s groupArray)"

text \<open>
  What a call of \<^verbatim>\<open>broadcast\<close> or \<^verbatim>\<open>broadcastOnBot\<close> leaves behind: the promise
  it returned, the collector after it, the array handed to \<^verbatim>\<open>emit\<close> when
  \<^verbatim>\<open>emit\<close> was called, and the results of the listeners that were called.
\<close>

record 'm run =
  settled :: "unit promise"
  final :: "'m collector"
  emitted :: "message list option"
  invoked :: "listenerResult list"

definition finish :: "unit promise \<times> 'm collector \<Rightarrow> message list option \<Rightarrow> listenerResult list \<Rightarrow> 'm run" where
  "finish pc e rs = \<lparr>settled = fst pc, final = snd pc, emitted = e, invoked = rs\<rparr>"

definition broadcastOnBot :: "'m collector \<Rightarrow> session \<Rightarrow> element list \<Rightarrow> 'm run option" where
  "broadcastOnBot c s els =
     (if isDirect s then Some (finish (Resolved (), c) None [])
      else
        case lock c s of
          (Resolved u, c1) \<Rightarrow>
            (let groupId = guildId s;
                 maxMessageSize = maxMessages c1;
                 groupArray = (case messages c1 groupId of Some a \<Rightarrow> a | None \<Rightarrow> []);
                 cont = mapElementToString s (content s) els
             in if length cont < 1 then Some (finish (unlock c1 s) None [])
                else
                  case pushAndShift groupArray (botMessage s cont) maxMessageSize of
                    None \<Rightarrow> None
                  | Some groupArray' \<Rightarrow>
                      Some (finish (unlock (c1\<lparr>messages := (messages c1)(groupId \<mapsto> groupArray')\<rparr>) s)
                              None []))
        | (Rejected, c1) \<Rightarrow> Some (finish (Rejected, c1) None [])
        | (Pending, c1) \<Rightarrow> Some (finish (Pending, c1) None []))"

text \<open>
  \<^verbatim>\<open>broadcast\<close>; \<open>now\<close> is the clock reading of \<^verbatim>\<open>isMute\<close> in line 211, which
  is read only when a filter has matched.
\<close>

definition broadcast :: "'m collector \<Rightarrow> session \<Rightarrow> int \<Rightarrow> 'm run option" where
  "broadcast c s now =
     (if isDirect s then Some (finish (Resolved (), c) None [])
      else
        case lock c s of
          (Resolved u, c1) \<Rightarrow>
            (let groupId = guildId s;
                 maxMessageSize = maxMessages c1;
                 groupArray = (case messages c1 groupId of Some a \<Rightarrow> a | None \<Rightarrow> []);
                 els = (case elements s of Some e \<Rightarrow> e | None \<Rightarrow> [Text (content s)]);
                 cont = mapElementToString s (content s) els
             in if length cont < 1 then Some (finish (unlock c1 s) None [])
                else
                  let m = incomingMessage s cont
                  in case pushAndShift groupArray m maxMessageSize of
                       None \<Rightarrow> None
                     | Some groupArray' \<Rightarrow>
                         (let c2 = c1\<lparr>messages := (messages c1)(groupId \<mapsto> groupArray')\<rparr>
                          in if list_ex (\<lambda>func. func s m) (filters c2)
                             then (case isMute c2 s now of
                                     (muted, c3) \<Rightarrow>
                                       if \<not> muted
                                       then (let rs = emit (listeners c3) s groupArray'
                                             in if Throws \<in> set rs
                                                then Some (finish (Rejected, c3) (Some groupArray') rs)
                                                else Some (finish (unlock c3 s) (Some groupArray') rs))
                                       else Some (finish (unlock c3 s) None []))
                             else Some (finish (unlock c2 s) None [])))
        | (Rejected, c1) \<Rightarrow> Some (finish (Rejected, c1) None [])
        | (Pending, c1) \<Rightarrow> Some (finish (Pending, c1) None []))"

section \<open>Observations and examples\<close>

text \<open>
  What the properties below read off a collector: whether a group's lock flag is set, its
  mute-until time, its buffer (an absent entry reads as the empty array the source
  starts from), the normalized content \<^verbatim>\<open>broadcast\<close> computes for a session, the last
  \<open>n\<close> entries of a list, and the collector with a group's lock flag written.
\<close>

definition lockHeld :: "'m collector \<Rightarrow> jsstring \<Rightarrow> bool" where
  "lockHeld c g = (case groupLocks c g of Some l \<Rightarrow> gl_lock l | None \<Rightarrow> False)"

definition muteUntil :: "'m collector \<Rightarrow> jsstring \<Rightarrow> int" where
  "muteUntil c g = (case groupLocks c g of Some l \<Rightarrow> gl_mute l | None \<Rightarrow> 0)"

definition buffer :: "'m collector \<Rightarrow> jsstring \<Rightarrow> message list" where
  "buffer c g = (case messages c g of Some a \<Rightarrow> a | None \<Rightarrow> [])"

definition normalized :: "session \<Rightarrow> jsstring" where
  "normalized s =
     mapElementToString s (content s)
       (case elements s of Some e \<Rightarrow> e | None \<Rightarrow> [Text (content s)])"

definition takeLast :: "nat \<Rightarrow> 'a list \<Rightarrow> 'a list" where
  "takeLast n xs = drop (length xs - n) xs"

definition withLock :: "'m collector \<Rightarrow> jsstring \<Rightarrow> bool \<Rightarrow> 'm collector" where
  "withLock c g b =
     c\<lparr>groupLocks := (groupLocks c)(g \<mapsto> \<lparr>gl_lock = b, gl_mute = muteUntil c g\<rparr>)\<rparr>"

text \<open>Concrete inputs for the examples.\<close>

definition exampleSession :: session where
  "exampleSession =
     \<lparr>isDirect = False, guildId = js ''g1'', content = js ''hello'', elements = None,
      author = \<lparr>author_username = Some (js ''Al''), author_userId = Some (js ''1'')\<rparr>,
      quote = None,
      bot = \<lparr>bot_username = Some (js ''Assistant''), bot_userId = None,
             bot_selfId = Some (js ''7'')\<rparr>\<rparr>"

definition alwaysTrue :: filter where
  "alwaysTrue s m = True"

definition rejectingListener :: listener where
  "rejectingListener s groupArray = Rejects"

definition throwingListener :: listener where
  "throwingListener s groupArray = Throws"

definition rejectingCollector :: "unit collector" where
  "rejectingCollector = collect (addFilter (newCollector 2) alwaysTrue) rejectingListener"

definition throwingCollector :: "unit collector" where
  "throwingCollector = collect (addFilter (newCollector 2) alwaysTrue) throwingListener"

definition helloMessage :: message where
  "helloMessage =
     \<lparr>msg_content = js ''hello'', msg_name = Some (js ''Al''), msg_id = Some (js ''1''),
      msg_quote = None\<rparr>"

definition blankSession :: session where
  "blankSession = exampleSession\<lparr>content := js ''  ''\<rparr>"

section \<open>Properties\<close>

subsection \<open>Auxiliary facts\<close>

lemma shiftLoop_nonneg:
  "0 \<le> n \<Longrightarrow> shiftLoop xs n = Some (drop (length xs - nat n) xs)"
proof (induction xs)
  case Nil
  then show ?case by (subst shiftLoop.simps) simp
next
  case (Cons x xs)
  show ?case
  proof (cases "int (length (x # xs)) > n")
    case True
    then have "shiftLoop (x # xs) n = shiftLoop xs n"
      by (subst shiftLoop.simps) simp
    also have "\<dots> = Some (drop (length xs - nat n) xs)"
      using Cons by simp
    also have "drop (length xs - nat n) xs = drop (length (x # xs) - nat n) (x # xs)"
      using True Cons.prems by (simp add: Suc_diff_le nat_le_iff)
    finally show ?thesis .
  next
    case False
    then show ?thesis by (subst shiftLoop.simps) simp
  qed
qed

lemma shiftLoop_Some_le:
  assumes "shiftLoop xs n = Some ys" shows "int (length ys) \<le> n"
  by (rule shiftLoop.raw_induct [where P = "\<lambda>xs n ys. int (length ys) \<le> n", OF _ assms])
     (auto split: if_splits)

lemma shiftLoop_neg: "n < 0 \<Longrightarrow> shiftLoop xs n = None"
  using shiftLoop_Some_le [of xs n] by (cases "shiftLoop xs n") auto

lemma pushAndShift_eq:
  "pushAndShift a m n = (if n < 0 then None else Some (takeLast (nat n) (a @ [m])))"
  by (auto simp: pushAndShift_def shiftLoop_neg shiftLoop_nonneg takeLast_def)

lemma getGroupLocks_eq:
  "getGroupLocks c g =
     (\<lparr>gl_lock = lockHeld c g, gl_mute = muteUntil c g\<rparr>,
      if groupLocks c g = None then withLock c g False else c)"
  by (auto simp: getGroupLocks_def lockHeld_def muteUntil_def withLock_def split: option.splits)

lemma groupLock_upd_lock: "l\<lparr>gl_lock := b\<rparr> = \<lparr>gl_lock = b, gl_mute = gl_mute l\<rparr>"
  by (cases l) simp


lemma lock_eq:
  "lock c s = (if lockHeld c (guildId s) then (Pending, c) else (Resolved (), withLock c (guildId s) True))"
  by (auto simp: lock_def getGroupLocks_def lockHeld_def muteUntil_def withLock_def setGroupLock_def
      groupLock_upd_lock split: option.splits)

lemma unlock_eq:
  "unlock c s =
     (if lockHeld c (guildId s) then (Resolved (), withLock c (guildId s) False)
      else (Pending, if groupLocks c (guildId s) = None then withLock c (guildId s) False else c))"
  by (auto simp: unlock_def getGroupLocks_def lockHeld_def muteUntil_def withLock_def setGroupLock_def
      groupLock_upd_lock split: option.splits)

lemma lockHeld_withLock [simp]: "lockHeld (withLock c g b) g' = (if g' = g then b else lockHeld c g')"
  by (simp add: lockHeld_def withLock_def)

lemma muteUntil_withLock [simp]: "muteUntil (withLock c g b) g' = muteUntil c g'"
  by (simp add: muteUntil_def withLock_def)

lemma withLock_fields [simp]:
  "messages (withLock c g b) = messages c"
  "listeners (withLock c g b) = listeners c"
  "filters (withLock c g b) = filters c"
  "groupTemp (withLock c g b) = groupTemp c"
  "maxMessages (withLock c g b) = maxMessages c"
  by (simp_all add: withLock_def)

lemma lockHeld_upd [simp]:
  "lockHeld (c\<lparr>messages := ms\<rparr>) g = lockHeld c g"
  "lockHeld (c\<lparr>groupTemp := ts\<rparr>) g = lockHeld c g"
  by (simp_all add: lockHeld_def)

lemma muteUntil_upd [simp]:
  "muteUntil (c\<lparr>messages := ms\<rparr>) g = muteUntil c g"
  "muteUntil (c\<lparr>groupTemp := ts\<rparr>) g = muteUntil c g"
  by (simp_all add: muteUntil_def)

lemma withLock_twice [simp]: "withLock (withLock c g a) g b = withLock c g b"
  unfolding withLock_def muteUntil_def by simp

lemma withLock_messages_upd:
  "withLock (c\<lparr>messages := ms\<rparr>) g b = (withLock c g b)\<lparr>messages := ms\<rparr>"
  by (simp add: withLock_def muteUntil_def)

lemma isMute_eq:
  "isMute c s now =
     (muteUntil c (guildId s) > now,
      if groupLocks c (guildId s) = None then withLock c (guildId s) False else c)"
  by (simp add: isMute_def getGroupLocks_eq)

lemma groupLocks_withLock_ne [simp]: "groupLocks (withLock c g b) g \<noteq> None"
  by (simp add: withLock_def)

lemma broadcast_free:
  assumes "\<not> isDirect s" "\<not> lockHeld c (guildId s)"
  shows "broadcast c s now =
     (if length (normalized s) < 1
      then Some \<lparr>settled = Resolved (), final = withLock c (guildId s) False, emitted = None, invoked = []\<rparr>
      else if maxMessages c < 0 then None
      else
        let m = incomingMessage s (normalized s);
            buf = takeLast (nat (maxMessages c)) (buffer c (guildId s) @ [m]);
            ms = (messages c)(guildId s \<mapsto> buf)
        in if list_ex (\<lambda>func. func s m) (filters c) \<and> \<not> muteUntil c (guildId s) > now
           then if Throws \<in> set (emit (listeners c) s buf)
                then Some \<lparr>settled = Rejected, final = (withLock c (guildId s) True)\<lparr>messages := ms\<rparr>,
                            emitted = Some buf, invoked = emit (listeners c) s buf\<rparr>
                else Some \<lparr>settled = Resolved (), final = (withLock c (guildId s) False)\<lparr>messages := ms\<rparr>,
                            emitted = Some buf, invoked = emit (listeners c) s buf\<rparr>
           else Some \<lparr>settled = Resolved (), final = (withLock c (guildId s) False)\<lparr>messages := ms\<rparr>,
                       emitted = None, invoked = []\<rparr>)"
  using assms
  by (simp add: broadcast_def lock_eq unlock_eq isMute_eq finish_def normalized_def buffer_def
      pushAndShift_eq Let_def withLock_messages_upd)

lemma broadcast_held:
  assumes "\<not> isDirect s" "lockHeld c (guildId s)"
  shows "broadcast c s now = Some \<lparr>settled = Pending, final = c, emitted = None, invoked = []\<rparr>"
  using assms by (simp add: broadcast_def lock_eq finish_def)

lemma broadcastOnBot_held:
  assumes "\<not> isDirect s" "lockHeld c (guildId s)"
  shows "broadcastOnBot c s els = Some \<lparr>settled = Pending, final = c, emitted = None, invoked = []\<rparr>"
  using assms by (simp add: broadcastOnBot_def lock_eq finish_def)

lemma broadcastOnBot_free:
  assumes "\<not> isDirect s" "\<not> lockHeld c (guildId s)"
  shows "broadcastOnBot c s els =
     (if length (mapElementToString s (content s) els) < 1
      then Some \<lparr>settled = Resolved (), final = withLock c (guildId s) False, emitted = None, invoked = []\<rparr>
      else if maxMessages c < 0 then None
      else Some \<lparr>settled = Resolved (),
                  final = (withLock c (guildId s) False)
                    \<lparr>messages := (messages c)(guildId s \<mapsto>
                       takeLast (nat (maxMessages c))
                         (buffer c (guildId s) @ [botMessage s (mapElementToString s (content s) els)]))\<rparr>,
                  emitted = None, invoked = []\<rparr>)"
  using assms
  by (simp add: broadcastOnBot_def lock_eq unlock_eq finish_def buffer_def
      pushAndShift_eq Let_def withLock_messages_upd)

lemma emit_no_throw:
  "\<forall>func \<in> set funcs. func s b \<noteq> Throws \<Longrightarrow> emit funcs s b = map (\<lambda>func. func s b) funcs"
  by (induction funcs) (auto split: listenerResult.splits)

lemma exampleSession_normalized: "normalized exampleSession = js ''hello''"
  by (simp add: normalized_def exampleSession_def mapElementToString_def js_def trimEnd_def
      isWhiteSpace_def)

lemma exampleSession_fields:
  "isDirect exampleSession = False" "guildId exampleSession = js ''g1''"
  "incomingMessage exampleSession (js ''hello'') = helloMessage"
  by (simp_all add: exampleSession_def incomingMessage_def helloMessage_def)

lemma newCollector_fields:
  "lockHeld (newCollector n) g = False" "muteUntil (newCollector n) g = 0"
  "buffer (newCollector n) g = []" "maxMessages (newCollector n) = n"
  "messages (newCollector n) = Map.empty"
  by (simp_all add: newCollector_def lockHeld_def muteUntil_def buffer_def)

lemma registration_fields:
  "lockHeld (collect c l) g = lockHeld c g" "lockHeld (addFilter c f) g = lockHeld c g"
  "muteUntil (collect c l) g = muteUntil c g" "muteUntil (addFilter c f) g = muteUntil c g"
  "buffer (collect c l) g = buffer c g" "buffer (addFilter c f) g = buffer c g"
  "maxMessages (collect c l) = maxMessages c" "maxMessages (addFilter c f) = maxMessages c"
  "messages (collect c l) = messages c" "messages (addFilter c f) = messages c"
  "filters (collect c l) = filters c" "filters (addFilter c f) = filters c @ [f]"
  "listeners (collect c l) = listeners c @ [l]" "listeners (addFilter c f) = listeners c"
  by (simp_all add: collect_def addFilter_def lockHeld_def muteUntil_def buffer_def)




lemma rejectingCollector_fields:
  "filters rejectingCollector = [alwaysTrue]" "listeners rejectingCollector = [rejectingListener]"
  "maxMessages rejectingCollector = 2" "buffer rejectingCollector g = []"
  "muteUntil rejectingCollector g = 0" "lockHeld rejectingCollector g = False"
  "messages rejectingCollector = Map.empty"
  by (simp_all add: rejectingCollector_def registration_fields newCollector_fields)
    (simp_all add: newCollector_def)

lemma throwingCollector_fields:
  "filters throwingCollector = [alwaysTrue]" "listeners throwingCollector = [throwingListener]"
  "maxMessages throwingCollector = 2" "buffer throwingCollector g = []"
  "muteUntil throwingCollector g = 0" "lockHeld throwingCollector g = False"
  "messages throwingCollector = Map.empty"
  by (simp_all add: throwingCollector_def registration_fields newCollector_fields)
    (simp_all add: newCollector_def)


lemma js_length: "length (js x) = length x"
  by (simp add: js_def)

subsection \<open>Normalization\<close>

lemma pushElements_append: "pushElements s es buf = buf @ pushElements s es []"
proof (induction es arbitrary: buf)
  case Nil
  show ?case by simp
next
  case (Cons e es)
  show ?case
  proof (cases e)
    case (Text c)
    show ?thesis
      using Cons [of buf] Cons [of "buf @ [c]"] Cons [of "[c]"] by (simp add: Text)
  next
    case (At i n)
    show ?thesis
      using Cons [of "buf @ [atString s i n]"] Cons [of "[atString s i n]"] by (simp add: At)
  next
    case (Other t)
    show ?thesis using Cons [of buf] by (simp add: Other)
  qed
qed

lemma pushElements_app: "pushElements s (xs @ ys) buf = pushElements s ys (pushElements s xs buf)"
proof (induction xs arbitrary: buf)
  case Nil
  show ?case by simp
next
  case (Cons e xs)
  show ?case by (cases e) (simp_all add: Cons)
qed

lemma concat_pushElements_split:
  "concat (pushElements s (xs @ e # ys) []) =
     concat (pushElements s xs []) @ concat (pushElements s [e] []) @ concat (pushElements s ys [])"
proof -
  have "pushElements s (xs @ e # ys) [] = pushElements s ys (pushElements s [e] (pushElements s xs []))"
    using pushElements_app [of s xs "e # ys" "[]"] pushElements_app [of s "[e]" ys] by simp
  also have "\<dots> = pushElements s xs [] @ pushElements s [e] [] @ pushElements s ys []"
    using pushElements_append [of s ys "pushElements s [e] (pushElements s xs [])"]
      pushElements_append [of s "[e]" "pushElements s xs []"] by simp
  finally show ?thesis by simp
qed

text \<open>
  Claim C4, as amended. \<^verbatim>\<open>mapElementToString\<close> returns the empty string whenever the
  raw content has no code unit left after \<^verbatim>\<open>trimEnd\<close>, whatever the elements are.
  Otherwise a text element contributes its content as it is, trailing white space
  included, between what the elements before it and the elements after it contribute; it
  contributes nothing when its content has no code unit left after \<^verbatim>\<open>trimEnd\<close>.
\<close>

theorem text_element_kept_untrimmed:
  "(length (trimEnd c) = 0 \<longrightarrow> mapElementToString s c es = [])
   \<and> (length (trimEnd c) \<noteq> 0 \<longrightarrow>
        mapElementToString s c (xs @ Text t # ys) =
          mapElementToString s c xs @ (if length (trimEnd t) = 0 then [] else t)
            @ mapElementToString s c ys)"
  by (simp add: mapElementToString_def concat_pushElements_split)

text \<open>
  Both cases at concrete inputs: white space only as the raw content, and three text
  elements of which the last one is blank.
\<close>

theorem text_element_kept_untrimmed_witness:
  "length (trimEnd (js ''  '')) = 0
   \<and> mapElementToString exampleSession (js ''  '') [Text (js ''a'')] = []
   \<and> length (trimEnd (js ''a b '')) \<noteq> 0
   \<and> mapElementToString exampleSession (js ''a b '') ([Text (js ''a '')] @ Text (js ''b '') # [Text (js '' '')]) = js ''a b ''"
proof -
  have b: "length (trimEnd (js ''  '')) = 0" and n: "length (trimEnd (js ''a b '')) \<noteq> 0"
    by (simp_all add: js_def trimEnd_def isWhiteSpace_def)
  have "mapElementToString exampleSession (js ''  '') [Text (js ''a'')] = []"
    using text_element_kept_untrimmed [of "js ''  ''" exampleSession "[Text (js ''a'')]"] b by blast
  moreover have "mapElementToString exampleSession (js ''a b '') ([Text (js ''a '')] @ Text (js ''b '') # [Text (js '' '')]) =
      mapElementToString exampleSession (js ''a b '') [Text (js ''a '')] @ (if length (trimEnd (js ''b '')) = 0 then [] else js ''b '')
            @ mapElementToString exampleSession (js ''a b '') [Text (js '' '')]"
    using text_element_kept_untrimmed [of "js ''a b ''" exampleSession _ "[Text (js ''a '')]" "js ''b ''" "[Text (js '' '')]"] n by blast
  ultimately show ?thesis using b n
    by (simp add: mapElementToString_def js_def trimEnd_def isWhiteSpace_def)
qed

text \<open>
  Claim C4 as the specification words it: the text element \<^verbatim>\<open>"hi "\<close> would contribute
  its trimmed content \<^verbatim>\<open>"hi"\<close>. Line 234 pushes \<^verbatim>\<open>content\<close>, not the trimmed
  string of line 231, so the result keeps the trailing space.
\<close>

theorem text_element_trimmed_counterexample:
  "mapElementToString exampleSession (js ''hi '') [Text (js ''hi '')] = js ''hi ''
   \<and> trimEnd (js ''hi '') = js ''hi''
   \<and> mapElementToString exampleSession (js ''hi '') [Text (js ''hi '')] \<noteq> trimEnd (js ''hi '')"
  by (simp add: mapElementToString_def js_def trimEnd_def isWhiteSpace_def)

text \<open>
  Claim C5. When the raw content is not blank (the case in which the elements are read at
  all), a mention element contributes \<^verbatim>\<open>(name-id-<at>)\<close> between what the elements
  before and after it contribute. The name is the element's own name when it has one;
  without one it is the bot's name (or \<^verbatim>\<open>'0'\<close>) when the mentioned id is the bot's
  \<^verbatim>\<open>selfId\<close>, and the mentioned id (or \<^verbatim>\<open>'0'\<close>) otherwise. The id is printed by
  the template literal, so a missing id reads \<^verbatim>\<open>undefined\<close>. The two examples of the
  specification follow: \<^verbatim>\<open>"hello"\<close> with the mention of Bob, and the nameless
  mention of the bot named Assistant.
\<close>

theorem mention_rendering:
  "(trimEnd c \<noteq> [] \<longrightarrow>
      mapElementToString s c (xs @ At i n # ys) =
        mapElementToString s c xs
        @ (js ''(''
           @ (case n of
                Some x \<Rightarrow> x
              | None \<Rightarrow>
                  if i = bot_selfId (bot s)
                  then (case bot_username (bot s) of Some u \<Rightarrow> u | None \<Rightarrow> js ''0'')
                  else (case i of Some x \<Rightarrow> x | None \<Rightarrow> js ''0''))
           @ js ''-'' @ (case i of Some x \<Rightarrow> x | None \<Rightarrow> js ''undefined'') @ js ''-<at>)'')
        @ mapElementToString s c ys)
   \<and> mapElementToString s (js ''hello'') [Text (js ''hello''), At (Some (js ''42'')) (Some (js ''Bob''))]
        = js ''hello(Bob-42-<at>)''
   \<and> (trimEnd c \<noteq> [] \<and> bot_selfId (bot s) = Some b \<and> bot_username (bot s) = Some (js ''Assistant'') \<longrightarrow>
        mapElementToString s c [At (Some b) None] = js ''(Assistant-'' @ b @ js ''-<at>)'')"
proof -
  have one: "concat (pushElements s [At i n] []) = atString s i n" for i n
    by simp
  have hello: "trimEnd (js ''hello'') \<noteq> []"
    by (simp add: js_def trimEnd_def isWhiteSpace_def)
  show ?thesis
    using hello
    by (auto simp: mapElementToString_def concat_pushElements_split atString_def atName_def
        templateString_def js_def split: option.splits)
qed

text \<open>
  A nameless mention without an id, followed by a nameless mention of the bot.
\<close>

theorem mention_rendering_witness:
  "trimEnd (js ''hey'') \<noteq> []
   \<and> mapElementToString exampleSession (js ''hey'') ([Text (js ''hey'')] @ At None None # [At (Some (js ''7'')) None])
       = js ''hey(0-undefined-<at>)(Assistant-7-<at>)''
   \<and> mapElementToString exampleSession (js ''hey'') [At (Some (js ''7'')) None] = js ''(Assistant-7-<at>)''"
proof -
  have h: "trimEnd (js ''hey'') \<noteq> []"
    by (simp add: js_def trimEnd_def isWhiteSpace_def)
  have "mapElementToString exampleSession (js ''hey'') [At (Some (js ''7'')) None] = js ''(Assistant-'' @ js ''7'' @ js ''-<at>)''"
    using mention_rendering [of "js ''hey''" exampleSession _ _ _ _ "js ''7''"] h
    by (simp add: exampleSession_def)
  then show ?thesis using h
    by (simp add: mapElementToString_def js_def trimEnd_def isWhiteSpace_def atString_def
        atName_def templateString_def exampleSession_def)
qed

subsection \<open>Mute window\<close>

text \<open>
  Claim C6. \<^verbatim>\<open>mute\<close> adds the duration to the stored mute-until time when that time
  is not before the clock reading, and stores the clock reading plus the duration
  otherwise. With one clock reading \<open>now\<close> for both reads this is: a mute-until time in
  the future is extended by the duration, any other is replaced by \<open>now\<close> plus the
  duration (a stored time equal to \<open>now\<close> gives the same value either way).
  \<^verbatim>\<open>isMute\<close> is true exactly when the stored time is strictly greater than the clock
  reading.
\<close>

theorem mute_window:
  "muteUntil (mute c s d t1 t2) (guildId s) =
     (if muteUntil c (guildId s) < t1 then t2 + d else muteUntil c (guildId s) + d)
   \<and> muteUntil (mute c s d now now) (guildId s) =
     (if muteUntil c (guildId s) > now then muteUntil c (guildId s) + d else now + d)
   \<and> fst (isMute c s now) = (muteUntil c (guildId s) > now)"
  by (simp add: mute_def getGroupLocks_eq setGroupLock_def muteUntil_def isMute_def)


subsection \<open>Broadcast\<close>




text \<open>
  Claim C7. For a group session whose normalized content is empty, \<^verbatim>\<open>broadcast\<close>
  returns with every buffer as it was, without a call of \<^verbatim>\<open>emit\<close> or of a listener;
  when the lock is free at the call its promise resolves and the lock flag is clear
  afterwards (it stays pending while another critical section holds the lock). The same
  holds for \<^verbatim>\<open>broadcastOnBot\<close> and the content normalized from its elements.
\<close>

theorem empty_content_not_buffered:
  assumes "\<not> isDirect s"
  shows "(length (normalized s) = 0 \<longrightarrow>
            (\<exists>r. broadcast c s now = Some r
                 \<and> messages (final r) = messages c \<and> emitted r = None \<and> invoked r = []
                 \<and> (\<not> lockHeld c (guildId s) \<longrightarrow>
                        settled r = Resolved () \<and> \<not> lockHeld (final r) (guildId s))
                 \<and> (lockHeld c (guildId s) \<longrightarrow> settled r = Pending)))
       \<and> (length (mapElementToString s (content s) els) = 0 \<longrightarrow>
            (\<exists>r. broadcastOnBot c s els = Some r
                 \<and> messages (final r) = messages c \<and> emitted r = None \<and> invoked r = []
                 \<and> (\<not> lockHeld c (guildId s) \<longrightarrow>
                        settled r = Resolved () \<and> \<not> lockHeld (final r) (guildId s))
                 \<and> (lockHeld c (guildId s) \<longrightarrow> settled r = Pending)))"
proof (cases "lockHeld c (guildId s)")
  case True
  show ?thesis
    using assms True by (simp add: broadcast_held broadcastOnBot_held)
next
  case False
  show ?thesis
    using assms False by (simp add: broadcast_free broadcastOnBot_free)
qed

text \<open>
  A session whose content is two spaces.
\<close>

theorem empty_content_not_buffered_witness:
  "\<not> isDirect blankSession \<and> length (normalized blankSession) = 0
   \<and> length (mapElementToString blankSession (content blankSession) [Text (js ''reply'')]) = 0
   \<and> \<not> lockHeld rejectingCollector (guildId blankSession)
   \<and> map_option settled (broadcast rejectingCollector blankSession 0) = Some (Resolved ())
   \<and> map_option (messages \<circ> final) (broadcast rejectingCollector blankSession 0) = Some Map.empty
   \<and> map_option invoked (broadcast rejectingCollector blankSession 0) = Some []
   \<and> map_option settled (broadcastOnBot rejectingCollector blankSession [Text (js ''reply'')]) = Some (Resolved ())
   \<and> map_option (messages \<circ> final) (broadcastOnBot rejectingCollector blankSession [Text (js ''reply'')]) = Some Map.empty"
proof -
  have d: "\<not> isDirect blankSession"
    by (simp add: blankSession_def exampleSession_def)
  have n: "length (normalized blankSession) = 0"
    by (simp add: blankSession_def exampleSession_def normalized_def mapElementToString_def
        js_def trimEnd_def isWhiteSpace_def)
  have b: "length (mapElementToString blankSession (content blankSession) [Text (js ''reply'')]) = 0"
    by (simp add: blankSession_def exampleSession_def mapElementToString_def
        js_def trimEnd_def isWhiteSpace_def)
  have l: "\<not> lockHeld rejectingCollector (guildId blankSession)"
    by (simp add: rejectingCollector_def registration_fields newCollector_fields)
  have m: "messages rejectingCollector = Map.empty"
    by (simp add: rejectingCollector_def registration_fields newCollector_fields)
  from empty_content_not_buffered [OF d, of rejectingCollector 0 "[Text (js ''reply'')]"] d n b l m
  show ?thesis by auto
qed

text \<open>
  Claim C3, as amended. Whatever the listeners do, the group's buffer after
  \<^verbatim>\<open>broadcast\<close> is the buffer with the message pushed and shifted. When no listener
  throws out of its call (a listener whose promise is rejected later is such a listener),
  \<^verbatim>\<open>_unlock\<close> runs: the promise of \<^verbatim>\<open>broadcast\<close> resolves and the lock flag is
  clear. When a listener throws, the exception leaves \<^verbatim>\<open>emit\<close> and
  \<^verbatim>\<open>broadcast\<close> before line 216: the promise is rejected and the lock flag stays
  set.
\<close>

theorem release_unless_listener_throws:
  fixes c :: "'m collector" and s :: session
  defines "buf \<equiv> takeLast (nat (maxMessages c)) (buffer c (guildId s) @ [incomingMessage s (normalized s)])"
  assumes "\<not> isDirect s" "\<not> lockHeld c (guildId s)" "0 \<le> maxMessages c"
    and "length (normalized s) \<noteq> 0"
  shows "\<exists>r. broadcast c s now = Some r
           \<and> messages (final r) = (messages c)(guildId s \<mapsto> buf)
           \<and> ((\<forall>func \<in> set (listeners c). func s buf \<noteq> Throws) \<longrightarrow>
                  settled r = Resolved () \<and> \<not> lockHeld (final r) (guildId s))
           \<and> (Throws \<in> set (invoked r) \<longrightarrow>
                  settled r = Rejected \<and> lockHeld (final r) (guildId s))"
proof -
  have len: "\<not> length (normalized s) < 1" "\<not> maxMessages c < 0"
    using assms by simp_all
  have nt: "(\<forall>func \<in> set (listeners c). func s buf \<noteq> Throws) \<Longrightarrow> Throws \<notin> set (emit (listeners c) s buf)"
    using emit_no_throw [of "listeners c" s buf] by auto
  show ?thesis
    using assms(2,3) len nt
    by (auto simp: broadcast_free Let_def buf_def)
qed

text \<open>
  A listener that returns a promise rejected later: the lock is released.
\<close>

theorem release_unless_listener_throws_witness:
  "\<not> isDirect exampleSession \<and> \<not> lockHeld rejectingCollector (guildId exampleSession)
   \<and> 0 \<le> maxMessages rejectingCollector \<and> length (normalized exampleSession) \<noteq> 0
   \<and> listeners rejectingCollector = [rejectingListener]
   \<and> rejectingListener exampleSession [helloMessage] = Rejects
   \<and> map_option invoked (broadcast rejectingCollector exampleSession 0) = Some [Rejects]
   \<and> map_option settled (broadcast rejectingCollector exampleSession 0) = Some (Resolved ())
   \<and> map_option (\<lambda>r. lockHeld (final r) (guildId exampleSession))
         (broadcast rejectingCollector exampleSession 0) = Some False
   \<and> map_option (\<lambda>r. messages (final r) (guildId exampleSession))
         (broadcast rejectingCollector exampleSession 0) = Some (Some [helloMessage])"
proof -
  have d: "\<not> isDirect exampleSession"
    by (simp add: exampleSession_fields)
  have l: "\<not> lockHeld rejectingCollector (guildId exampleSession)"
    by (simp add: rejectingCollector_fields)
  have x: "0 \<le> maxMessages rejectingCollector"
    by (simp add: rejectingCollector_fields)
  have n: "length (normalized exampleSession) \<noteq> 0"
    by (simp add: exampleSession_normalized js_length)
  have b: "takeLast (nat (maxMessages rejectingCollector))
      (buffer rejectingCollector (guildId exampleSession)
        @ [incomingMessage exampleSession (normalized exampleSession)]) = [helloMessage]"
    by (simp add: rejectingCollector_fields exampleSession_normalized exampleSession_fields
        takeLast_def)
  have t: "\<forall>func \<in> set (listeners rejectingCollector). func exampleSession [helloMessage] \<noteq> Throws"
    by (simp add: rejectingCollector_fields rejectingListener_def)
  have i: "map_option invoked (broadcast rejectingCollector exampleSession 0) = Some [Rejects]"
    using d l
    by (simp add: broadcast_free exampleSession_normalized exampleSession_fields js_length
        Let_def rejectingCollector_fields alwaysTrue_def rejectingListener_def takeLast_def)
  from release_unless_listener_throws [OF d l x n, of 0] b t
  obtain r where "broadcast rejectingCollector exampleSession 0 = Some r"
    "messages (final r) = (messages rejectingCollector)(guildId exampleSession \<mapsto> [helloMessage])"
    "settled r = Resolved ()" "\<not> lockHeld (final r) (guildId exampleSession)"
    by auto
  then show ?thesis using d l x n i
    by (simp add: rejectingCollector_fields rejectingListener_def)
qed

text \<open>
  Claim C3 as the specification words it, at a listener that throws: \<^verbatim>\<open>broadcast\<close> is
  rejected and the group's lock flag is still set afterwards.
\<close>

theorem throwing_listener_keeps_lock_counterexample:
  "broadcast throwingCollector exampleSession 0 \<noteq> None
   \<and> invoked (the (broadcast throwingCollector exampleSession 0)) = [Throws]
   \<and> settled (the (broadcast throwingCollector exampleSession 0)) = Rejected
   \<and> lockHeld (final (the (broadcast throwingCollector exampleSession 0))) (guildId exampleSession)"
proof -
  have d: "\<not> isDirect exampleSession"
    by (simp add: exampleSession_fields)
  have l: "\<not> lockHeld throwingCollector (guildId exampleSession)"
    by (simp add: throwingCollector_fields)
  show ?thesis
    by (simp add: broadcast_free [OF d l] exampleSession_normalized exampleSession_fields js_length
        Let_def throwingCollector_fields alwaysTrue_def throwingListener_def takeLast_def)
qed

end
